theory Spec2Isabelle
  imports Complex_Main
begin

section \<open>Floating-point values\<close>

text \<open>
  Python and NumPy floats are modelled as exact rationals together with the three special
  values of IEEE arithmetic. Rounding is not modelled: the constants \<open>0.4\<close>, \<open>0.2\<close>,
  \<open>0.05\<close> are the exact fractions. NumPy division by zero does not raise: it gives an
  infinity, or NaN for \<open>0 / 0\<close>. Signed zeros are not values of the model; the one place
  where the sign of a zero shows, a zero divisor, takes it as a flag.
\<close>

datatype npfloat = Fin rat | PInf | NInf | NaN

fun np_neg :: "npfloat \<Rightarrow> npfloat" where
  "np_neg (Fin a) = Fin (- a)"
| "np_neg PInf = NInf"
| "np_neg NInf = PInf"
| "np_neg NaN = NaN"

fun np_add :: "npfloat \<Rightarrow> npfloat \<Rightarrow> npfloat" where
  "np_add NaN y = NaN"
| "np_add x NaN = NaN"
| "np_add (Fin a) (Fin b) = Fin (a + b)"
| "np_add PInf NInf = NaN"
| "np_add NInf PInf = NaN"
| "np_add PInf y = PInf"
| "np_add NInf y = NInf"
| "np_add (Fin a) y = y"

definition np_sub :: "npfloat \<Rightarrow> npfloat \<Rightarrow> npfloat" where
  "np_sub x y = np_add x (np_neg y)"

fun np_div :: "bool \<Rightarrow> npfloat \<Rightarrow> npfloat \<Rightarrow> npfloat" where
  \<comment> \<open>The flag says that a zero divisor is the negative zero.\<close>
  "np_div nz NaN y = NaN"
| "np_div nz x NaN = NaN"
| "np_div nz (Fin a) (Fin b) =
     (if b \<noteq> 0 then Fin (a / b)
      else if a = 0 then NaN
      else if (0 < a) \<noteq> nz then PInf else NInf)"
| "np_div nz (Fin a) y = Fin 0"
| "np_div nz PInf (Fin b) = (if 0 < b \<or> (b = 0 \<and> \<not> nz) then PInf else NInf)"
| "np_div nz NInf (Fin b) = (if 0 < b \<or> (b = 0 \<and> \<not> nz) then NInf else PInf)"
| "np_div nz x y = NaN"

fun np_less :: "npfloat \<Rightarrow> npfloat \<Rightarrow> bool" where
  \<comment> \<open>\<open>x < y\<close>: false whenever a NaN is compared.\<close>
  "np_less NaN y = False"
| "np_less x NaN = False"
| "np_less (Fin a) (Fin b) = (a < b)"
| "np_less x NInf = False"
| "np_less NInf y = True"
| "np_less PInf y = False"
| "np_less (Fin a) PInf = True"

fun np_le :: "npfloat \<Rightarrow> npfloat \<Rightarrow> bool" where
  \<comment> \<open>\<open>x <= y\<close>\<close>
  "np_le NaN y = False"
| "np_le x NaN = False"
| "np_le x y = (x = y \<or> np_less x y)"

section \<open>Python values, dictionaries and errors\<close>

text \<open>
  The exceptions the modelled code can raise. Every raise is a branch \<open>Inl e\<close> of the
  result.
\<close>

datatype py_error = KeyError | TypeError | IndexError | ValueError

text \<open>
  The values stored in the dictionaries of the analyzer: \<open>None\<close>, a string or a number.
\<close>

datatype pyval = PNone | PStr string | PNum npfloat

text \<open>
  A Python \<open>dict\<close> with string keys, as an association list read from the front. The empty
  dictionary (falsy in Python) is the empty list.
\<close>

type_synonym pydict = "(string \<times> pyval) list"

definition getitem :: "pydict \<Rightarrow> string \<Rightarrow> py_error + pyval" where
  \<comment> \<open>\<open>d[k]\<close>: raises KeyError on a missing key.\<close>
  "getitem d k = (case map_of d k of None \<Rightarrow> Inl KeyError | Some v \<Rightarrow> Inr v)"

definition dict_get :: "pydict \<Rightarrow> string \<Rightarrow> pyval \<Rightarrow> pyval" where
  \<comment> \<open>\<open>d.get(k, default)\<close>.\<close>
  "dict_get d k dflt = (case map_of d k of None \<Rightarrow> dflt | Some v \<Rightarrow> v)"

definition as_num :: "pyval \<Rightarrow> py_error + npfloat" where
  \<comment> \<open>An ordering comparison of a number with \<open>None\<close> or a string raises TypeError.\<close>
  "as_num v = (case v of PNum r \<Rightarrow> Inr r | _ \<Rightarrow> Inl TypeError)"

definition raising :: "'e + 'a \<Rightarrow> ('a \<Rightarrow> 'e + 'b) \<Rightarrow> 'e + 'b" where
  \<comment> \<open>Sequencing: an exception raised by the first computation ends the whole one.\<close>
  "raising m f = (case m of Inl e \<Rightarrow> Inl e | Inr x \<Rightarrow> f x)"

section \<open>stock\_analyzer.py: the StockAnalyzer state\<close>

record bar =
  High :: rat
  Low :: rat
  Close :: rat

record analyzer =
  data :: "bar list option"
  info :: "pydict option"
  sentiment_score :: rat
  technical_signals :: pydict
  fundamental_metrics :: pydict

subsection \<open>analyze\_fundamentals\<close>

definition analyze_fundamentals :: "analyzer \<Rightarrow> pydict \<times> analyzer" where
  "analyze_fundamentals a =
     (case info a of
        None \<Rightarrow> ([], a)
      | Some i \<Rightarrow>
          if i = [] then ([], a)
          else
            (let m = [(''pe_ratio'', dict_get i ''forwardPE'' (PNum (Fin 0))),
                      (''peg_ratio'', dict_get i ''pegRatio'' (PNum (Fin 0))),
                      (''profit_margin'', dict_get i ''profitMargins'' (PNum (Fin 0))),
                      (''debt_to_equity'', dict_get i ''debtToEquity'' (PNum (Fin 0))),
                      (''return_on_equity'', dict_get i ''returnOnEquity'' (PNum (Fin 0))),
                      (''quick_ratio'', dict_get i ''quickRatio'' (PNum (Fin 0)))]
             in (m, a\<lparr>fundamental_metrics := m\<rparr>)))"

subsection \<open>The two sub-scores\<close>

definition clamp_0_100 :: "rat \<Rightarrow> rat" where
  \<comment> \<open>\<open>min(max(score, 0), 100)\<close>\<close>
  "clamp_0_100 score = min (max score 0) 100"

definition calculate_technical_score :: "analyzer \<Rightarrow> py_error + rat" where
  "calculate_technical_score a =
     (let score = 50 in
      raising (getitem (technical_signals a) ''trend'') (\<lambda>trend.
      let score = (if trend = PStr ''Bullish'' then score + 15 else score) in
      raising (getitem (technical_signals a) ''rsi_signal'') (\<lambda>rsi_signal.
      let score = (if rsi_signal = PStr ''Oversold'' then score + 10 else score) in
      raising (getitem (technical_signals a) ''price_trend'') (\<lambda>price_trend.
      let score = (if price_trend = PStr ''Up'' then score + 15 else score) in
      Inr (clamp_0_100 score)))))"

definition calculate_fundamental_score :: "analyzer \<Rightarrow> py_error + rat" where
  "calculate_fundamental_score a =
     (let score = 50 in
      raising (getitem (fundamental_metrics a) ''pe_ratio'') (\<lambda>pe_v.
      raising (as_num pe_v) (\<lambda>pe.
      let score = (if np_le (Fin 10) pe \<and> np_le pe (Fin 25) then score + 10 else score) in
      raising (getitem (fundamental_metrics a) ''profit_margin'') (\<lambda>pm_v.
      raising (as_num pm_v) (\<lambda>profit_margin.
      let score = (if np_less (Fin (2 / 10)) profit_margin then score + 10 else score) in
      raising (getitem (fundamental_metrics a) ''debt_to_equity'') (\<lambda>de_v.
      raising (as_num de_v) (\<lambda>debt_ratio.
      let score = (if np_less debt_ratio (Fin 1) then score + 10 else score) in
      Inr (clamp_0_100 score))))))))"

subsection \<open>get\_investment\_recommendation\<close>

definition label_of :: "rat \<Rightarrow> string \<times> string" where
  \<comment> \<open>The \<open>if\<close>/\<open>elif\<close> chain on the total, in the source's order.\<close>
  "label_of total_score =
     (if total_score \<ge> 70 then
        (''Strong Buy'', ''Strong technical signals and fundamentals support buying'')
      else if total_score \<ge> 60 then
        (''Buy'', ''Generally positive indicators with some caution'')
      else if total_score \<ge> 40 then
        (''Hold'', ''Mixed signals suggest holding current position'')
      else if total_score \<ge> 30 then
        (''Sell'', ''Weak performance indicators suggest selling'')
      else
        (''Strong Sell'', ''Multiple negative indicators suggest immediate selling''))"

definition get_investment_recommendation :: "analyzer \<Rightarrow> py_error + (string \<times> rat \<times> string)" where
  "get_investment_recommendation a =
     (if technical_signals a = [] \<or> fundamental_metrics a = [] then
        Inr (''Insufficient Data'', 0, ''Unable to make recommendation due to limited data'')
      else
        raising (calculate_technical_score a) (\<lambda>technical_score.
        raising (calculate_fundamental_score a) (\<lambda>fundamental_score.
        let total_score = technical_score * (4 / 10) + fundamental_score * (4 / 10)
                          + sentiment_score a * (2 / 10)
        in Inr (fst (label_of total_score), total_score, snd (label_of total_score)))))"

subsection \<open>Well-formed states and example states\<close>

definition scoring_keys_present :: "analyzer \<Rightarrow> bool" where
  "scoring_keys_present a \<longleftrightarrow>
     list_all (\<lambda>k. map_of (technical_signals a) k \<noteq> None) [''trend'', ''rsi_signal'', ''price_trend''] \<and>
     list_all (\<lambda>k. case map_of (fundamental_metrics a) k of Some (PNum r) \<Rightarrow> True | _ \<Rightarrow> False)
       [''pe_ratio'', ''profit_margin'', ''debt_to_equity'']"

definition example_analyzer :: "rat \<Rightarrow> analyzer" where
  "example_analyzer s =
     \<lparr>data = None, info = None, sentiment_score = s,
      technical_signals = [(''trend'', PStr ''Bullish''), (''rsi_signal'', PStr ''Oversold''),
                           (''price_trend'', PStr ''Up'')],
      fundamental_metrics = [(''pe_ratio'', PNum (Fin 15)), (''profit_margin'', PNum (Fin (25 / 100))),
                             (''debt_to_equity'', PNum (Fin (5 / 10)))]\<rparr>"

definition spec_example :: "pyval \<Rightarrow> pyval \<Rightarrow> pyval \<Rightarrow> pyval \<Rightarrow> pyval \<Rightarrow> analyzer" where
  \<comment> \<open>The state of the spec's worked example; the entries the scorer does not read are
      left open.\<close>
  "spec_example sl rl peg roe qr =
     \<lparr>data = None, info = None, sentiment_score = 100,
      technical_signals = [(''trend'', PStr ''Bullish''), (''rsi_signal'', PStr ''Oversold''),
                           (''price_trend'', PStr ''Up''), (''support_level'', sl),
                           (''resistance_level'', rl)],
      fundamental_metrics = [(''pe_ratio'', PNum (Fin 15)), (''peg_ratio'', peg),
                             (''profit_margin'', PNum (Fin (25 / 100))),
                             (''debt_to_equity'', PNum (Fin (5 / 10))),
                             (''return_on_equity'', roe), (''quick_ratio'', qr)]\<rparr>"

definition half_filled :: analyzer where
  \<comment> \<open>Technical signals without the keys the scorer reads, no fundamental metrics.\<close>
  "half_filled =
     \<lparr>data = None, info = None, sentiment_score = 0,
      technical_signals = [(''support_level'', PNum (Fin 1))],
      fundamental_metrics = []\<rparr>"

definition info_pe_only :: analyzer where
  \<comment> \<open>A fresh analyzer whose provider info holds the forward P/E only.\<close>
  "info_pe_only =
     \<lparr>data = None, info = Some [(''forwardPE'', PNum (Fin 15))], sentiment_score = 0,
      technical_signals = [], fundamental_metrics = []\<rparr>"

definition info_peg_only :: analyzer where
  \<comment> \<open>A fresh analyzer whose provider info holds the PEG ratio only.\<close>
  "info_peg_only =
     \<lparr>data = None, info = Some [(''pegRatio'', PNum (Fin 2))], sentiment_score = 0,
      technical_signals = [], fundamental_metrics = []\<rparr>"

subsection \<open>Series operations of pandas\<close>

text \<open>
  A price series is a list of rationals. \<open>diff\<close> puts NaN (here \<open>None\<close>) first;
  \<open>where(cond, 0)\<close> keeps an entry where the condition holds and puts 0 elsewhere, also
  for NaN, whose comparisons are false; \<open>rolling(window).mean()\<close> is NaN until the window
  is full.

  The series of a price frame are indexed by dates. What \<open>s[-1]\<close> does on such a series
  depends on the pandas version, and the repository pins none: before pandas 3 an integer
  key falls back to the position, so \<open>s[-1]\<close> is the last entry, or IndexError on an empty
  series; from pandas 3 on the key is a label, \<open>-1\<close> is no date, and \<open>s[-1]\<close> raises
  KeyError on every series. \<open>s.iloc[-1]\<close>, which Technical\_Analysis.py uses for the same
  read, is positional in every version.
\<close>

datatype int_key = PositionalFallback | LabelLookup

fun diff :: "rat list \<Rightarrow> rat option list" where
  "diff [] = []"
| "diff (x # xs) = None # map (\<lambda>(prev, cur). Some (cur - prev)) (zip (x # xs) xs)"

definition where_positive :: "rat option \<Rightarrow> rat" where
  \<comment> \<open>an entry of \<open>delta.where(delta > 0, 0)\<close>\<close>
  "where_positive d = (case d of Some r \<Rightarrow> if r > 0 then r else 0 | None \<Rightarrow> 0)"

definition neg_where_negative :: "rat option \<Rightarrow> rat" where
  \<comment> \<open>an entry of \<open>-delta.where(delta < 0, 0)\<close>\<close>
  "neg_where_negative d = (case d of Some r \<Rightarrow> if r < 0 then - r else 0 | None \<Rightarrow> 0)"

definition window_at :: "nat \<Rightarrow> nat \<Rightarrow> 'a list \<Rightarrow> 'a list" where
  \<comment> \<open>the \<open>w\<close> entries that end at position \<open>i\<close>\<close>
  "window_at w i xs = take w (drop (Suc i - w) xs)"

definition rolling_mean :: "nat \<Rightarrow> rat list \<Rightarrow> npfloat list" where
  "rolling_mean w xs =
     map (\<lambda>i. if 1 \<le> w \<and> w \<le> Suc i then Fin (sum_list (window_at w i xs) / of_nat w) else NaN)
       [0 ..< length xs]"

definition series_last :: "int_key \<Rightarrow> 'a list \<Rightarrow> py_error + 'a" where
  \<comment> \<open>\<open>s[-1]\<close> on a date-indexed series\<close>
  "series_last key xs =
     (case key of
        LabelLookup \<Rightarrow> Inl KeyError
      | PositionalFallback \<Rightarrow> if xs = [] then Inl IndexError else Inr (last xs))"

definition tail :: "nat \<Rightarrow> 'a list \<Rightarrow> 'a list" where
  \<comment> \<open>\<open>s.tail(n)\<close>\<close>
  "tail n xs = drop (length xs - n) xs"

definition series_min :: "rat list \<Rightarrow> npfloat" where
  \<comment> \<open>\<open>s.min()\<close>: NaN on an empty series\<close>
  "series_min xs = (case xs of [] \<Rightarrow> NaN | x # ys \<Rightarrow> Fin (fold min ys x))"

definition series_max :: "rat list \<Rightarrow> npfloat" where
  \<comment> \<open>\<open>s.max()\<close>: NaN on an empty series\<close>
  "series_max xs = (case xs of [] \<Rightarrow> NaN | x # ys \<Rightarrow> Fin (fold max ys x))"

subsection \<open>\_calculate\_rsi\<close>

text \<open>
  The mean of the losses is the divisor of \<open>rs\<close>. Its entries are negated, so a window
  without a falling price holds negative zeros only, and whether their rolling mean is the
  positive or the negative zero depends on the pandas version: the flag \<open>nz\<close> says which.
  No division here raises.
\<close>

definition calculate_rsi :: "bool \<Rightarrow> rat list \<Rightarrow> nat \<Rightarrow> npfloat list" where
  "calculate_rsi nz prices period =
     (let delta = diff prices;
          gain = rolling_mean period (map where_positive delta);
          loss = rolling_mean period (map neg_where_negative delta);
          rs = map (\<lambda>(g, l). np_div nz g l) (zip gain loss)
      in map (\<lambda>r. np_sub (Fin 100) (np_div False (Fin 100) (np_add (Fin 1) r))) rs)"

definition rsi_of :: "bool \<Rightarrow> npfloat \<Rightarrow> npfloat \<Rightarrow> npfloat" where
  \<comment> \<open>One entry of the result, from the two means at its position.\<close>
  "rsi_of nz g l = np_sub (Fin 100) (np_div False (Fin 100) (np_add (Fin 1) (np_div nz g l)))"

definition rising_prices :: "rat list" where
  \<comment> \<open>Fifteen closes, each above the one before.\<close>
  "rising_prices = [1, 2, 3, 4, 5, 6, 7, 8, 9, 10, 11, 12, 13, 14, 15]"

definition dipping_prices :: "rat list" where
  \<comment> \<open>Fifteen closes with one fall, from 8 to 7.\<close>
  "dipping_prices = [1, 2, 3, 4, 5, 6, 7, 8, 7, 10, 11, 12, 13, 14, 15]"

subsection \<open>analyze\_technicals\<close>

definition find_support :: "bar list \<Rightarrow> npfloat" where
  "find_support d = series_min (tail 20 (map Low d))"

definition find_resistance :: "bar list \<Rightarrow> npfloat" where
  "find_resistance d = series_max (tail 20 (map High d))"

definition analyze_technicals ::
  "int_key \<Rightarrow> bool \<Rightarrow> analyzer \<Rightarrow> py_error + (pydict \<times> analyzer)" where
  "analyze_technicals key nz a =
     (case data a of
        None \<Rightarrow> Inr ([], a)
      | Some d \<Rightarrow>
          let close_prices = map Close d;
              sma_50 = rolling_mean 50 close_prices;
              sma_200 = rolling_mean 200 close_prices;
              rsi = calculate_rsi nz close_prices 14
          in raising (series_last key close_prices) (\<lambda>current_price.
             raising (series_last key sma_50) (\<lambda>sma_50_last.
             raising (series_last key sma_200) (\<lambda>sma_200_last.
             raising (series_last key rsi) (\<lambda>rsi_last.
               let signals =
                     [(''trend'',
                         PStr (if np_less sma_200_last sma_50_last then ''Bullish'' else ''Bearish'')),
                      (''rsi_signal'',
                         PStr (if np_less rsi_last (Fin 30) then ''Oversold''
                               else if np_less (Fin 70) rsi_last then ''Overbought''
                               else ''Neutral'')),
                      (''price_trend'',
                         PStr (if np_less sma_50_last (Fin current_price) then ''Up'' else ''Down'')),
                      (''support_level'', PNum (find_support d)),
                      (''resistance_level'', PNum (find_resistance d))]
               in Inr (signals, a\<lparr>technical_signals := signals\<rparr>))))))"

definition with_closes :: "rat list \<Rightarrow> analyzer" where
  \<comment> \<open>An analyzer after \<open>fetch_data\<close>, with bars whose high, low and close coincide.\<close>
  "with_closes cs =
     \<lparr>data = Some (map (\<lambda>c. \<lparr>High = c, Low = c, Close = c\<rparr>) cs), info = None,
      sentiment_score = 0, technical_signals = [], fundamental_metrics = []\<rparr>"

definition long_closes :: "rat list" where
  \<comment> \<open>Two hundred closes: 150 at 1, then 50 at 2.\<close>
  "long_closes = replicate 150 1 @ replicate 50 2"

section \<open>Sentimental.py and Sector\_Sentiment.py: classify\_sentiment\<close>

text \<open>
  The labels end with an emoji; strings are byte strings here, so each emoji is written as
  its UTF-8 bytes (chart increasing U+1F4C8, chart decreasing U+1F4C9, heavy minus U+2796).
  The polarity score is a rational; \<open>0.05\<close> is the fraction \<open>5 / 100\<close>.
\<close>

definition label_bullish :: string where
  "label_bullish = ''Bullish '' @ [CHR 0xF0, CHR 0x9F, CHR 0x93, CHR 0x88]"

definition label_bearish :: string where
  "label_bearish = ''Bearish '' @ [CHR 0xF0, CHR 0x9F, CHR 0x93, CHR 0x89]"

definition label_neutral :: string where
  "label_neutral = ''Neutral '' @ [CHR 0xE2, CHR 0x9E, CHR 0x96]"

definition Sentimental_classify_sentiment :: "rat \<Rightarrow> string \<times> string \<times> string" where
  \<comment> \<open>Sentimental.py: label, CSS class and colour.\<close>
  "Sentimental_classify_sentiment score =
     (if score \<ge> 5 / 100 then (label_bullish, ''bullish'', ''green'')
      else if score \<le> - (5 / 100) then (label_bearish, ''bearish'', ''red'')
      else (label_neutral, ''neutral'', ''gray''))"

definition Sector_Sentiment_classify_sentiment :: "rat \<Rightarrow> string \<times> string" where
  \<comment> \<open>Sector\_Sentiment.py: label and CSS class.\<close>
  "Sector_Sentiment_classify_sentiment score =
     (if score \<ge> 5 / 100 then (label_bullish, ''bullish'')
      else if score \<le> - (5 / 100) then (label_bearish, ''bearish'')
      else (label_neutral, ''neutral''))"

section \<open>stock\_utils.py: StockDataFetcher\<close>

subsection \<open>The string methods validate\_ticker uses\<close>

text \<open>
  Symbols are ASCII strings. A character outside ASCII is neither alphanumeric nor white
  space here and \<open>upper\<close> leaves it alone, so such a symbol is rejected by the
  \<open>isalnum\<close> test when the character is in its base part.
\<close>

definition isspace_chr :: "char \<Rightarrow> bool" where
  \<comment> \<open>space, tab, newline, vertical tab, form feed, carriage return, and the four
      separators 0x1C..0x1F\<close>
  "isspace_chr c \<longleftrightarrow>
     (let n = (of_char c :: nat) in n = 32 \<or> (9 \<le> n \<and> n \<le> 13) \<or> (28 \<le> n \<and> n \<le> 31))"

definition strip :: "string \<Rightarrow> string" where
  "strip s = rev (dropWhile isspace_chr (rev (dropWhile isspace_chr s)))"

definition upper_chr :: "char \<Rightarrow> char" where
  "upper_chr c =
     (let n = (of_char c :: nat) in if 97 \<le> n \<and> n \<le> 122 then char_of (n - 32) else c)"

definition upper :: "string \<Rightarrow> string" where
  "upper s = map upper_chr s"

definition isalnum_chr :: "char \<Rightarrow> bool" where
  "isalnum_chr c \<longleftrightarrow>
     (let n = (of_char c :: nat)
      in (48 \<le> n \<and> n \<le> 57) \<or> (65 \<le> n \<and> n \<le> 90) \<or> (97 \<le> n \<and> n \<le> 122))"

definition isalnum :: "string \<Rightarrow> bool" where
  \<comment> \<open>\<open>str.isalnum\<close> is false on the empty string.\<close>
  "isalnum s \<longleftrightarrow> s \<noteq> [] \<and> list_all isalnum_chr s"

fun split_on :: "char \<Rightarrow> string \<Rightarrow> string list" where
  \<comment> \<open>\<open>s.split(c)\<close>: never empty; one more part than there are separators.\<close>
  "split_on c [] = [[]]"
| "split_on c (x # xs) =
     (if x = c then [] # split_on c xs
      else (case split_on c xs of [] \<Rightarrow> [[x]] | p # ps \<Rightarrow> (x # p) # ps))"

definition replace_hyphens :: "string \<Rightarrow> string" where
  \<comment> \<open>\<open>s.replace('-', '')\<close>\<close>
  "replace_hyphens s = filter (\<lambda>c. c \<noteq> CHR ''-'') s"

subsection \<open>validate\_ticker\<close>

definition valid_suffixes :: "string list" where
  "valid_suffixes = [''.NS'', ''.BO'', ''.L'', ''.PA'', ''.DE'', ''.HK'']"

definition normalised :: "string \<Rightarrow> string" where
  \<comment> \<open>\<open>symbol.strip().upper()\<close>\<close>
  "normalised symbol = upper (strip symbol)"

definition base_symbol_of :: "string \<Rightarrow> string" where
  \<comment> \<open>\<open>symbol.split('.')[0]\<close>; the split is never empty.\<close>
  "base_symbol_of symbol = hd (split_on (CHR ''.'') symbol)"

definition suffix_of :: "string \<Rightarrow> string" where
  \<comment> \<open>\<open>'.' + symbol.split('.')[1]\<close>; read only when the symbol contains a dot, where the
      split has at least two parts.\<close>
  "suffix_of symbol = ''.'' @ (split_on (CHR ''.'') symbol ! 1)"

definition validate_ticker :: "string \<Rightarrow> bool" where
  \<comment> \<open>The \<open>st.error\<close> calls write to the page and are left out.\<close>
  "validate_ticker symbol0 =
     (if symbol0 = [] then False
      else
        let symbol = normalised symbol0;
            base_symbol = base_symbol_of symbol
        in if \<not> isalnum (replace_hyphens base_symbol) then False
           else if CHR ''.'' \<in> set symbol then
             (let suffix = suffix_of symbol
              in if suffix \<notin> set valid_suffixes \<and> length symbol > 6 then False else True)
           else if length symbol > 5 then False
           else True)"

subsection \<open>fetch\_stock\_data\<close>

text \<open>
  The market-data provider is a parameter: a function from requests to responses. The
  function returns its pair of optional results together with the requests it has sent,
  in order. A response of the wrong kind stands for a raised exception, as \<open>Raised\<close> does.
  The time-to-live cache around the function is not modelled: this is the body that runs
  on a cache miss.
\<close>

datatype request =
    HistoryPeriod1d string
  | HistoryRange string int int
  | InfoRequest string

datatype response = Raised | Frame "bar list" | InfoDict pydict

definition fetch_stock_data ::
  "(request \<Rightarrow> response) \<Rightarrow> string \<Rightarrow> int \<Rightarrow> int \<Rightarrow>
     (bar list option \<times> pydict option) \<times> request list" where
  "fetch_stock_data provider symbol start_date end_date =
     (if \<not> validate_ticker symbol then ((None, None), [])
      else
        let probe = HistoryPeriod1d symbol;
            full = HistoryRange symbol start_date end_date;
            about = InfoRequest symbol
        in case provider probe of
             Frame quick \<Rightarrow>
               if quick = [] then ((None, None), [probe])
               else
                 (case provider full of
                    Frame rows \<Rightarrow>
                      if rows = [] then ((None, None), [probe, full])
                      else
                        (case provider about of
                           InfoDict i \<Rightarrow> ((Some rows, Some i), [probe, full, about])
                         | _ \<Rightarrow> ((Some rows, Some []), [probe, full, about]))
                  | _ \<Rightarrow> ((None, None), [probe, full]))
           | _ \<Rightarrow> ((None, None), [probe]))"

definition always_data :: "request \<Rightarrow> response" where
  \<comment> \<open>A provider that has one bar and an info entry for every symbol.\<close>
  "always_data r =
     (case r of InfoRequest s \<Rightarrow> InfoDict [(''forwardPE'', PNum (Fin 15))]
      | _ \<Rightarrow> Frame [\<lparr>High = 2, Low = 1, Close = 2\<rparr>])"

section \<open>Prediction.py: the open-loop forecast\<close>

text \<open>
  The trained network is a parameter: \<open>predict\<close> maps a window to the next scaled value.
  \<open>reshape(1, lookback, 1)\<close> raises ValueError unless the window has \<open>lookback\<close> entries.
  The scaler is given by its fitted attributes \<open>min_\<close> and \<open>scale_\<close> (the fields
  \<open>data_offset\<close> and \<open>data_scale\<close>); its \<open>inverse_transform\<close> wants a two-dimensional
  array and raises ValueError on the empty list.
\<close>

record scaler =
  data_offset :: rat
  data_scale :: rat

definition last_rows :: "nat \<Rightarrow> rat list \<Rightarrow> rat list" where
  \<comment> \<open>\<open>scaled_data[-lookback:]\<close>; \<open>-0\<close> is \<open>0\<close>, so \<open>lookback = 0\<close> takes the whole array\<close>
  "last_rows lookback scaled_data =
     (if lookback = 0 then scaled_data else drop (length scaled_data - lookback) scaled_data)"

fun forecast_loop ::
  "(rat list \<Rightarrow> rat) \<Rightarrow> nat \<Rightarrow> nat \<Rightarrow> rat list \<Rightarrow> rat list \<Rightarrow> py_error + rat list" where
  \<comment> \<open>\<open>for _ in range(prediction_periods)\<close>, with the loop's two variables\<close>
  "forecast_loop predict lookback 0 current_seq future_pred = Inr future_pred"
| "forecast_loop predict lookback (Suc n) current_seq future_pred =
     (if length current_seq \<noteq> lookback then Inl ValueError
      else
        let pred = predict current_seq
        in forecast_loop predict lookback n (tl current_seq @ [pred]) (future_pred @ [pred]))"

definition inverse_transform :: "scaler \<Rightarrow> rat list \<Rightarrow> py_error + rat list" where
  "inverse_transform sc xs =
     (if xs = [] then Inl ValueError else Inr (map (\<lambda>x. (x - data_offset sc) / data_scale sc) xs))"

definition forecast ::
  "(rat list \<Rightarrow> rat) \<Rightarrow> scaler \<Rightarrow> rat list \<Rightarrow> nat \<Rightarrow> nat \<Rightarrow> py_error + rat list" where
  "forecast predict sc scaled_data lookback prediction_periods =
     (let last_sequence = last_rows lookback scaled_data
      in raising (forecast_loop predict lookback prediction_periods last_sequence [])
           (inverse_transform sc))"

definition window_mean :: "rat list \<Rightarrow> rat" where
  \<comment> \<open>A stand-in for a trained network: the mean of the window.\<close>
  "window_mean xs = sum_list xs / of_nat (length xs)"

section \<open>Properties\<close>

subsection \<open>The recommendation score\<close>

lemma clamp_0_100_range: "0 \<le> clamp_0_100 x \<and> clamp_0_100 x \<le> 100"
  by (simp add: clamp_0_100_def)

lemma technical_score_range:
  assumes "calculate_technical_score a = Inr t"
  shows "0 \<le> t \<and> t \<le> 100"
  using assms clamp_0_100_range
  by (auto simp: calculate_technical_score_def raising_def Let_def split: sum.splits)

lemma fundamental_score_range:
  assumes "calculate_fundamental_score a = Inr f"
  shows "0 \<le> f \<and> f \<le> 100"
  using assms clamp_0_100_range
  by (auto simp: calculate_fundamental_score_def raising_def Let_def split: sum.splits)

lemma technical_score_returns:
  assumes "scoring_keys_present a"
  shows "\<exists>t. calculate_technical_score a = Inr t"
  using assms
  by (auto simp: scoring_keys_present_def calculate_technical_score_def raising_def getitem_def Let_def)

lemma fundamental_score_returns:
  assumes "scoring_keys_present a"
  shows "\<exists>f. calculate_fundamental_score a = Inr f"
  using assms
  by (auto simp: scoring_keys_present_def calculate_fundamental_score_def raising_def getitem_def
      as_num_def Let_def split: option.splits pyval.splits)

lemma weighted_total_range:
  fixes t f s :: rat
  assumes "0 \<le> t" "t \<le> 100" "0 \<le> f" "f \<le> 100" "0 \<le> s" "s \<le> 100"
  shows "0 \<le> t * (4 / 10) + f * (4 / 10) + s * (2 / 10)"
    and "t * (4 / 10) + f * (4 / 10) + s * (2 / 10) \<le> 100"
  using assms by auto

text \<open>
  Claim C1, as amended. The total is \<open>0.4 * technical + 0.4 * fundamental + 0.2 * sentiment\<close>
  and only the two sub-scores are clamped: nothing clamps \<open>sentiment_score\<close> or the total.
  When the sentiment score lies in [0,100] (the scale the caller is meant to supply), every
  score that \<open>get_investment_recommendation\<close> returns lies in [0,100]; and the call does
  return whenever the three technical keys are present and the three fundamental keys it
  reads hold numbers.
\<close>

theorem total_score_in_range:
  assumes "0 \<le> sentiment_score a" and "sentiment_score a \<le> 100"
  shows "(\<forall>l sc e. get_investment_recommendation a = Inr (l, sc, e) \<longrightarrow> 0 \<le> sc \<and> sc \<le> 100) \<and>
         (scoring_keys_present a \<longrightarrow> (\<exists>l sc e. get_investment_recommendation a = Inr (l, sc, e)))"
proof (rule conjI)
  show "\<forall>l sc e. get_investment_recommendation a = Inr (l, sc, e) \<longrightarrow> 0 \<le> sc \<and> sc \<le> 100"
  proof (intro allI, rule impI)
  fix l sc e
  assume r: "get_investment_recommendation a = Inr (l, sc, e)"
  show "0 \<le> sc \<and> sc \<le> 100"
  proof (cases "technical_signals a = [] \<or> fundamental_metrics a = []")
    case True
    with r show ?thesis by (simp add: get_investment_recommendation_def)
  next
    case False
    with r obtain t f where t: "calculate_technical_score a = Inr t"
      and f: "calculate_fundamental_score a = Inr f"
      and sc: "sc = t * (4 / 10) + f * (4 / 10) + sentiment_score a * (2 / 10)"
      by (auto simp: get_investment_recommendation_def raising_def Let_def split: sum.splits)
    from technical_score_range [OF t] fundamental_score_range [OF f] assms
    show ?thesis unfolding sc using weighted_total_range by blast
  qed
  qed
next
  show "scoring_keys_present a \<longrightarrow> (\<exists>l sc e. get_investment_recommendation a = Inr (l, sc, e))"
  proof
    assume "scoring_keys_present a"
    from technical_score_returns [OF this] fundamental_score_returns [OF this]
    show "\<exists>l sc e. get_investment_recommendation a = Inr (l, sc, e)"
      by (auto simp: get_investment_recommendation_def raising_def Let_def)
  qed
qed

theorem total_score_in_range_witness:
  "0 \<le> sentiment_score (example_analyzer 100) \<and> sentiment_score (example_analyzer 100) \<le> 100 \<and>
   scoring_keys_present (example_analyzer 100) \<and>
   get_investment_recommendation (example_analyzer 100) =
     Inr (''Strong Buy'', 88, ''Strong technical signals and fundamentals support buying'') \<and>
   (0::rat) \<le> 88 \<and> (88::rat) \<le> 100"
  using total_score_in_range [of "example_analyzer 100"]
  by (simp add: example_analyzer_def get_investment_recommendation_def calculate_technical_score_def
       calculate_fundamental_score_def raising_def getitem_def as_num_def clamp_0_100_def label_of_def
       scoring_keys_present_def)

text \<open>
  Claim C1 as stated ("any sentiment score value") fails: with both mappings non-empty and
  a sentiment score of 1000 the returned total is 36 + 32 + 200 = 268.
\<close>

theorem total_score_unbounded_counterexample:
  "technical_signals (example_analyzer 1000) \<noteq> [] \<and> fundamental_metrics (example_analyzer 1000) \<noteq> [] \<and>
   get_investment_recommendation (example_analyzer 1000) =
     Inr (''Strong Buy'', 268, ''Strong technical signals and fundamentals support buying'') \<and>
   \<not> ((268::rat) \<le> 100)"
  by (simp add: example_analyzer_def get_investment_recommendation_def calculate_technical_score_def
       calculate_fundamental_score_def raising_def getitem_def as_num_def clamp_0_100_def label_of_def)

text \<open>
  Claim C2. For technical signals \<open>{trend: Bullish, rsi_signal: Oversold, price_trend: Up}\<close>,
  fundamental metrics with \<open>pe_ratio = 15\<close>, \<open>profit_margin = 0.25\<close>,
  \<open>debt_to_equity = 0.5\<close> (whatever the other entries hold) and sentiment score 100, the
  technical sub-score is 90, the fundamental sub-score is 80, the total is
  \<open>0.4 * 90 + 0.4 * 80 + 0.2 * 100 = 88\<close> and the label is "Strong Buy".
\<close>

theorem spec_example_strong_buy:
  "calculate_technical_score (spec_example sl rl peg roe qr) = Inr 90 \<and>
   calculate_fundamental_score (spec_example sl rl peg roe qr) = Inr 80 \<and>
   (90::rat) * (4 / 10) + 80 * (4 / 10) + 100 * (2 / 10) = 88 \<and>
   get_investment_recommendation (spec_example sl rl peg roe qr) =
     Inr (''Strong Buy'', 88, ''Strong technical signals and fundamentals support buying'')"
  by (simp add: spec_example_def get_investment_recommendation_def calculate_technical_score_def
       calculate_fundamental_score_def raising_def getitem_def as_num_def clamp_0_100_def label_of_def)

text \<open>
  Claim C5. If the technical-signals mapping or the fundamental-metrics mapping is empty,
  \<open>get_investment_recommendation\<close> returns the sentinel \<open>("Insufficient Data", 0, text)\<close>.
  No sub-score is computed: the result is the sentinel also in states where computing a
  sub-score would raise KeyError, as the witness shows.
\<close>

theorem insufficient_data_sentinel:
  assumes "technical_signals a = [] \<or> fundamental_metrics a = []"
  shows "get_investment_recommendation a =
           Inr (''Insufficient Data'', 0, ''Unable to make recommendation due to limited data'')"
  using assms by (auto simp: get_investment_recommendation_def)

theorem insufficient_data_sentinel_witness:
  "fundamental_metrics half_filled = [] \<and>
   calculate_fundamental_score half_filled = Inl KeyError \<and>
   calculate_technical_score half_filled = Inl KeyError \<and>
   get_investment_recommendation half_filled =
     Inr (''Insufficient Data'', 0, ''Unable to make recommendation due to limited data'')"
  using insufficient_data_sentinel [of half_filled]
  by (simp add: half_filled_def calculate_fundamental_score_def calculate_technical_score_def
       raising_def getitem_def)

subsection \<open>The fundamental metrics\<close>

lemma dict_get_absent: "map_of d k = None \<Longrightarrow> dict_get d k dflt = dflt"
  by (simp add: dict_get_def)

lemma fundamental_score_no_KeyError:
  assumes "map_of (fundamental_metrics a) ''pe_ratio'' \<noteq> None"
    and "map_of (fundamental_metrics a) ''profit_margin'' \<noteq> None"
    and "map_of (fundamental_metrics a) ''debt_to_equity'' \<noteq> None"
  shows "calculate_fundamental_score a \<noteq> Inl KeyError"
  using assms
  by (auto simp: calculate_fundamental_score_def raising_def getitem_def as_num_def Let_def
      split: pyval.splits)

text \<open>
  Claim C10. When \<open>analyze_fundamentals\<close> runs on a non-empty info mapping, the mapping it
  returns and stores has exactly the six keys \<open>pe_ratio\<close>, \<open>peg_ratio\<close>, \<open>profit_margin\<close>,
  \<open>debt_to_equity\<close>, \<open>return_on_equity\<close>, \<open>quick_ratio\<close>; each holds 0 when its source key
  is absent from the info mapping; and in the resulting state no key lookup of
  \<open>_calculate_fundamental_score\<close> fails (it never raises KeyError).
\<close>

theorem analyze_fundamentals_six_keys:
  assumes "info a = Some i" and "i \<noteq> []"
  shows "map fst (fst (analyze_fundamentals a)) =
           [''pe_ratio'', ''peg_ratio'', ''profit_margin'', ''debt_to_equity'',
            ''return_on_equity'', ''quick_ratio''] \<and>
         fundamental_metrics (snd (analyze_fundamentals a)) = fst (analyze_fundamentals a) \<and>
         (map_of i ''forwardPE'' = None \<longrightarrow>
            map_of (fst (analyze_fundamentals a)) ''pe_ratio'' = Some (PNum (Fin 0))) \<and>
         (map_of i ''pegRatio'' = None \<longrightarrow>
            map_of (fst (analyze_fundamentals a)) ''peg_ratio'' = Some (PNum (Fin 0))) \<and>
         (map_of i ''profitMargins'' = None \<longrightarrow>
            map_of (fst (analyze_fundamentals a)) ''profit_margin'' = Some (PNum (Fin 0))) \<and>
         (map_of i ''debtToEquity'' = None \<longrightarrow>
            map_of (fst (analyze_fundamentals a)) ''debt_to_equity'' = Some (PNum (Fin 0))) \<and>
         (map_of i ''returnOnEquity'' = None \<longrightarrow>
            map_of (fst (analyze_fundamentals a)) ''return_on_equity'' = Some (PNum (Fin 0))) \<and>
         (map_of i ''quickRatio'' = None \<longrightarrow>
            map_of (fst (analyze_fundamentals a)) ''quick_ratio'' = Some (PNum (Fin 0))) \<and>
         calculate_fundamental_score (snd (analyze_fundamentals a)) \<noteq> Inl KeyError"
proof -
  let ?m = "fst (analyze_fundamentals a)"
  have m: "?m = [(''pe_ratio'', dict_get i ''forwardPE'' (PNum (Fin 0))),
                 (''peg_ratio'', dict_get i ''pegRatio'' (PNum (Fin 0))),
                 (''profit_margin'', dict_get i ''profitMargins'' (PNum (Fin 0))),
                 (''debt_to_equity'', dict_get i ''debtToEquity'' (PNum (Fin 0))),
                 (''return_on_equity'', dict_get i ''returnOnEquity'' (PNum (Fin 0))),
                 (''quick_ratio'', dict_get i ''quickRatio'' (PNum (Fin 0)))]"
    using assms by (simp add: analyze_fundamentals_def Let_def)
  have st: "fundamental_metrics (snd (analyze_fundamentals a)) = ?m"
    using assms by (simp add: analyze_fundamentals_def Let_def)
  have keys: "map fst ?m = [''pe_ratio'', ''peg_ratio'', ''profit_margin'', ''debt_to_equity'',
            ''return_on_equity'', ''quick_ratio'']"
    by (simp add: m)
  have dflt: "(map_of i ''forwardPE'' = None \<longrightarrow> map_of ?m ''pe_ratio'' = Some (PNum (Fin 0))) \<and>
         (map_of i ''pegRatio'' = None \<longrightarrow> map_of ?m ''peg_ratio'' = Some (PNum (Fin 0))) \<and>
         (map_of i ''profitMargins'' = None \<longrightarrow> map_of ?m ''profit_margin'' = Some (PNum (Fin 0))) \<and>
         (map_of i ''debtToEquity'' = None \<longrightarrow> map_of ?m ''debt_to_equity'' = Some (PNum (Fin 0))) \<and>
         (map_of i ''returnOnEquity'' = None \<longrightarrow> map_of ?m ''return_on_equity'' = Some (PNum (Fin 0))) \<and>
         (map_of i ''quickRatio'' = None \<longrightarrow> map_of ?m ''quick_ratio'' = Some (PNum (Fin 0)))"
    by (simp add: m dict_get_absent)
  have "calculate_fundamental_score (snd (analyze_fundamentals a)) \<noteq> Inl KeyError"
    by (rule fundamental_score_no_KeyError) (simp_all add: st m)
  with keys st dflt show ?thesis by simp
qed

theorem analyze_fundamentals_six_keys_witness:
  "info info_pe_only = Some [(''forwardPE'', PNum (Fin 15))] \<and>
   [(''forwardPE'', PNum (Fin 15))] \<noteq> [] \<and>
   map_of [(''forwardPE'', PNum (Fin 15))] ''pegRatio'' = None \<and>
   map_of [(''forwardPE'', PNum (Fin 15))] ''profitMargins'' = None \<and>
   map_of [(''forwardPE'', PNum (Fin 15))] ''debtToEquity'' = None \<and>
   map_of [(''forwardPE'', PNum (Fin 15))] ''returnOnEquity'' = None \<and>
   map_of [(''forwardPE'', PNum (Fin 15))] ''quickRatio'' = None \<and>
   fst (analyze_fundamentals info_pe_only) =
     [(''pe_ratio'', PNum (Fin 15)), (''peg_ratio'', PNum (Fin 0)),
      (''profit_margin'', PNum (Fin 0)), (''debt_to_equity'', PNum (Fin 0)),
      (''return_on_equity'', PNum (Fin 0)), (''quick_ratio'', PNum (Fin 0))] \<and>
   calculate_fundamental_score (snd (analyze_fundamentals info_pe_only)) = Inr 70 \<and>
   info info_peg_only = Some [(''pegRatio'', PNum (Fin 2))] \<and>
   [(''pegRatio'', PNum (Fin 2))] \<noteq> [] \<and>
   map_of [(''pegRatio'', PNum (Fin 2))] ''forwardPE'' = None \<and>
   map_of (fst (analyze_fundamentals info_peg_only)) ''pe_ratio'' = Some (PNum (Fin 0)) \<and>
   calculate_fundamental_score (snd (analyze_fundamentals info_peg_only)) = Inr 60"
  using analyze_fundamentals_six_keys [of info_pe_only "[(''forwardPE'', PNum (Fin 15))]"]
    analyze_fundamentals_six_keys [of info_peg_only "[(''pegRatio'', PNum (Fin 2))]"]
  by (simp add: info_pe_only_def info_peg_only_def analyze_fundamentals_def dict_get_def Let_def
       calculate_fundamental_score_def raising_def getitem_def as_num_def clamp_0_100_def)

subsection \<open>The relative strength index\<close>

lemma length_diff: "length (diff xs) = length xs"
  by (cases xs) simp_all

lemma diff_nth_Some:
  assumes "0 < i" and "i < length xs"
  shows "diff xs ! i = Some (xs ! i - xs ! (i - 1))"
proof (cases xs)
  case Nil
  with assms show ?thesis by simp
next
  case (Cons x ys)
  from assms obtain j where j: "i = Suc j" by (cases i) auto
  with assms Cons have "j < length ys" by simp
  with Cons j show ?thesis by simp
qed

lemma length_rolling_mean: "length (rolling_mean w xs) = length xs"
  by (simp add: rolling_mean_def)

lemma rolling_mean_nth:
  assumes "i < length xs"
  shows "rolling_mean w xs ! i =
           (if 1 \<le> w \<and> w \<le> Suc i then Fin (sum_list (window_at w i xs) / of_nat w) else NaN)"
  using assms by (simp add: rolling_mean_def)

lemma window_at_map: "window_at w i (map f xs) = map f (window_at w i xs)"
  by (simp add: window_at_def take_map drop_map)

lemma window_at_last_mem:
  assumes "1 \<le> w" and "w \<le> Suc i" and "i < length xs"
  shows "xs ! i \<in> set (window_at w i xs)"
proof -
  have len: "w - 1 < length (window_at w i xs)"
    using assms by (simp add: window_at_def)
  have "window_at w i xs ! (w - 1) = xs ! i"
    using assms by (simp add: window_at_def)
  with len show ?thesis by (metis nth_mem)
qed

lemma length_calculate_rsi: "length (calculate_rsi nz prices period) = length prices"
  by (simp add: calculate_rsi_def Let_def length_rolling_mean length_diff)

lemma where_positive_nonneg: "0 \<le> where_positive d"
  by (simp add: where_positive_def split: option.splits)

lemma neg_where_negative_nonneg: "0 \<le> neg_where_negative d"
  by (simp add: neg_where_negative_def split: option.splits)

lemma sum_gain_nonneg: "0 \<le> sum_list (map where_positive ds)"
  by (rule sum_list_nonneg) (auto simp: where_positive_nonneg)

lemma sum_loss_nonneg: "0 \<le> sum_list (map neg_where_negative ds)"
  by (rule sum_list_nonneg) (auto simp: neg_where_negative_nonneg)

lemma sum_gain_pos:
  assumes "Some r \<in> set ds" and "0 < r"
  shows "0 < sum_list (map where_positive ds)"
proof -
  have "sum_list (map where_positive ds) \<noteq> 0"
  proof
    assume "sum_list (map where_positive ds) = 0"
    then have "\<forall>x\<in>set (map where_positive ds). x = 0"
      by (subst (asm) sum_list_nonneg_eq_0_iff) (auto simp: where_positive_nonneg)
    with assms(1) have "where_positive (Some r) = 0" by auto
    with assms(2) show False by (simp add: where_positive_def)
  qed
  with sum_gain_nonneg [of ds] show ?thesis by simp
qed

lemma sum_loss_pos:
  assumes "Some r \<in> set ds" and "r < 0"
  shows "0 < sum_list (map neg_where_negative ds)"
proof -
  have "sum_list (map neg_where_negative ds) \<noteq> 0"
  proof
    assume "sum_list (map neg_where_negative ds) = 0"
    then have "\<forall>x\<in>set (map neg_where_negative ds). x = 0"
      by (subst (asm) sum_list_nonneg_eq_0_iff) (auto simp: neg_where_negative_nonneg)
    with assms(1) have "neg_where_negative (Some r) = 0" by auto
    with assms(2) show False by (simp add: neg_where_negative_def)
  qed
  with sum_loss_nonneg [of ds] show ?thesis by simp
qed

lemma sum_loss_zero:
  assumes "list_all (\<lambda>d. case d of None \<Rightarrow> True | Some r \<Rightarrow> 0 < r) ds"
  shows "sum_list (map neg_where_negative ds) = 0"
  using assms
  by (induction ds) (auto simp: neg_where_negative_def split: option.splits)

lemma rsi_of_loss_pos:
  assumes "0 \<le> g" and "0 < l"
  shows "\<exists>r. rsi_of nz (Fin g) (Fin l) = Fin r \<and> 0 \<le> r \<and> r \<le> 100"
proof -
  from assms have q: "0 \<le> g / l" by simp
  then have pos: "0 < 1 + g / l" by simp
  then have ne: "1 + g / l \<noteq> 0" by simp
  have eq: "rsi_of nz (Fin g) (Fin l) = Fin (100 - 100 / (1 + g / l))"
    using assms ne by (simp add: rsi_of_def np_sub_def)
  have "100 / (1 + g / l) \<le> 100"
    using q pos by (simp add: divide_le_eq)
  moreover have "0 \<le> 100 / (1 + g / l)"
    using pos by simp
  ultimately show ?thesis using eq by simp
qed

lemma rsi_of_loss_zero:
  assumes "0 < g"
  shows "rsi_of nz (Fin g) (Fin 0) = Fin 100"
  using assms by (cases nz) (simp_all add: rsi_of_def np_sub_def)

lemma calculate_rsi_nth:
  assumes "i < length prices" and "1 \<le> p" and "p \<le> Suc i"
  shows "calculate_rsi nz prices p ! i =
           rsi_of nz (Fin (sum_list (map where_positive (window_at p i (diff prices))) / of_nat p))
                     (Fin (sum_list (map neg_where_negative (window_at p i (diff prices))) / of_nat p))"
  using assms
  by (simp add: calculate_rsi_def Let_def length_rolling_mean length_diff rolling_mean_nth
      window_at_map rsi_of_def)

text \<open>
  Claim C3. With the default period of 14, at every position from the 14th entry on
  (the series is long enough for the window there): if the deltas in the window are not
  all zero, the RSI is a number in [0,100]; and if all of them are positive, so that the
  mean loss is 0, the RSI is 100. The division by the zero mean loss gives an infinity and
  raises nothing: \<open>calculate_rsi\<close> has no error result. This holds whichever zero the
  mean loss is.
\<close>

theorem rsi_bounded:
  assumes "13 \<le> i" and "i < length prices"
  shows "(list_ex (\<lambda>d. d \<noteq> None \<and> d \<noteq> Some 0) (window_at 14 i (diff prices)) \<longrightarrow>
            (\<exists>r. calculate_rsi nz prices 14 ! i = Fin r \<and> 0 \<le> r \<and> r \<le> 100)) \<and>
         (list_all (\<lambda>d. case d of None \<Rightarrow> True | Some r \<Rightarrow> 0 < r) (window_at 14 i (diff prices)) \<longrightarrow>
            calculate_rsi nz prices 14 ! i = Fin 100)"
proof -
  let ?W = "window_at 14 i (diff prices)"
  let ?G = "sum_list (map where_positive ?W)"
  let ?L = "sum_list (map neg_where_negative ?W)"
  have nth: "calculate_rsi nz prices 14 ! i = rsi_of nz (Fin (?G / 14)) (Fin (?L / 14))"
    using calculate_rsi_nth [of i prices 14 nz] assms by simp
  have G0: "0 \<le> ?G / 14" using sum_gain_nonneg [of ?W] by simp
  have L0: "0 \<le> ?L / 14" using sum_loss_nonneg [of ?W] by simp
  have bounded: "\<exists>r. calculate_rsi nz prices 14 ! i = Fin r \<and> 0 \<le> r \<and> r \<le> 100"
    if ex: "list_ex (\<lambda>d. d \<noteq> None \<and> d \<noteq> Some 0) ?W"
  proof -
    from ex obtain r where r: "Some r \<in> set ?W" and nz0: "r \<noteq> 0"
      by (auto simp: list_ex_iff)
    show ?thesis
    proof (cases "0 < ?L")
      case True
      then have "0 < ?L / 14" by simp
      from rsi_of_loss_pos [OF G0 this] nth show ?thesis by simp
    next
      case False
      with sum_loss_nonneg [of ?W] have Lz: "?L = 0" by simp
      have "\<not> r < 0" using sum_loss_pos [OF r] Lz by auto
      with nz0 have "0 < r" by simp
      from sum_gain_pos [OF r this] have "0 < ?G / 14" by simp
      from rsi_of_loss_zero [OF this] nth Lz show ?thesis by simp
    qed
  qed
  have rising: "calculate_rsi nz prices 14 ! i = Fin 100"
    if all: "list_all (\<lambda>d. case d of None \<Rightarrow> True | Some r \<Rightarrow> 0 < r) ?W"
  proof -
    have Lz: "?L = 0" by (rule sum_loss_zero [OF all])
    have i0: "0 < i" using assms by simp
    have mem: "diff prices ! i \<in> set ?W"
      using assms by (intro window_at_last_mem) (simp_all add: length_diff)
    from diff_nth_Some [OF i0 assms(2)] mem
    have r: "Some (prices ! i - prices ! (i - 1)) \<in> set ?W" by simp
    with all have "0 < prices ! i - prices ! (i - 1)"
      by (auto simp: list_all_iff)
    from sum_gain_pos [OF r this] have "0 < ?G / 14" by simp
    from rsi_of_loss_zero [OF this] nth Lz show ?thesis by simp
  qed
  from bounded rising show ?thesis by blast
qed

theorem rsi_bounded_witness:
  "(13::nat) \<le> 14 \<and> 14 < length rising_prices \<and>
   list_ex (\<lambda>d. d \<noteq> None \<and> d \<noteq> Some 0) (window_at 14 14 (diff rising_prices)) \<and>
   list_all (\<lambda>d. case d of None \<Rightarrow> True | Some r \<Rightarrow> 0 < r) (window_at 14 14 (diff rising_prices)) \<and>
   calculate_rsi True rising_prices 14 ! 14 = Fin 100 \<and>
   (13::nat) \<le> 13 \<and> 13 < length dipping_prices \<and>
   list_ex (\<lambda>d. d \<noteq> None \<and> d \<noteq> Some 0) (window_at 14 13 (diff dipping_prices)) \<and>
   calculate_rsi False dipping_prices 14 ! 13 = Fin (280 / 3) \<and>
   (0::rat) \<le> 280 / 3 \<and> (280 / 3 :: rat) \<le> 100"
proof -
  have len: "14 < length rising_prices" "13 < length dipping_prices"
    by (simp_all add: rising_prices_def dipping_prices_def)
  have ex: "list_ex (\<lambda>d. d \<noteq> None \<and> d \<noteq> Some 0) (window_at 14 14 (diff rising_prices))"
    by code_simp
  have all: "list_all (\<lambda>d. case d of None \<Rightarrow> True | Some r \<Rightarrow> 0 < r)
               (window_at 14 14 (diff rising_prices))"
    by code_simp
  have ex2: "list_ex (\<lambda>d. d \<noteq> None \<and> d \<noteq> Some 0) (window_at 14 13 (diff dipping_prices))"
    by code_simp
  have v2: "calculate_rsi False dipping_prices 14 ! 13 = Fin (280 / 3)"
    by code_simp
  from rsi_bounded [of 14 rising_prices True] len(1) all
  have "calculate_rsi True rising_prices 14 ! 14 = Fin 100" by simp
  moreover from rsi_bounded [of 13 dipping_prices False] len(2) ex2
  have "\<exists>r. calculate_rsi False dipping_prices 14 ! 13 = Fin r \<and> 0 \<le> r \<and> r \<le> 100" by simp
  ultimately show ?thesis using len ex all ex2 v2 by simp
qed

subsection \<open>The trend signal\<close>

lemma tail_all: "length xs \<le> n \<Longrightarrow> tail n xs = xs"
  by (simp add: tail_def)

lemma rolling_mean_last:
  assumes "xs \<noteq> []"
  shows "last (rolling_mean w xs) =
           (if 1 \<le> w \<and> w \<le> length xs then Fin (sum_list (tail w xs) / of_nat w) else NaN)"
proof -
  from assms have n: "0 < length xs" by simp
  then have up: "[0 ..< length xs] \<noteq> []" by simp
  have l: "last [0 ..< length xs] = length xs - 1"
    using n by (simp add: last_upt)
  have w: "window_at w (length xs - 1) xs = tail w xs" if "w \<le> length xs"
    using that n by (simp add: window_at_def tail_def)
  show ?thesis
    unfolding rolling_mean_def last_map [OF up] l using n w by auto
qed

lemma series_last_positional:
  "xs \<noteq> [] \<Longrightarrow> series_last PositionalFallback xs = Inr (last xs)"
  by (simp add: series_last_def)

lemma rolling_mean_nonempty: "xs \<noteq> [] \<Longrightarrow> rolling_mean w xs \<noteq> []"
  using length_rolling_mean [of w xs] by (metis length_0_conv)

lemma calculate_rsi_nonempty: "xs \<noteq> [] \<Longrightarrow> calculate_rsi nz xs p \<noteq> []"
  using length_calculate_rsi [of nz xs p] by (metis length_0_conv)

text \<open>
  Where an integer key falls back to the position (pandas before 3), the trend signal is
  what the specification asks for on every non-empty series: \<open>analyze_technicals\<close>
  returns; under 200 entries the 200-period average is NaN, the comparison is false and
  the trend is Bearish; from 200 entries on, the trend is Bullish if and only if the
  latest 50-period average is strictly greater than the latest 200-period average.
\<close>

lemma trend_signal_positional:
  assumes "data a = Some d" and "d \<noteq> []"
  shows "\<exists>signals a'. analyze_technicals PositionalFallback nz a = Inr (signals, a') \<and>
           (length d < 200 \<longrightarrow> map_of signals ''trend'' = Some (PStr ''Bearish'')) \<and>
           (200 \<le> length d \<longrightarrow>
              map_of signals ''trend'' =
                Some (PStr (if sum_list (tail 200 (map Close d)) / 200
                                 < sum_list (tail 50 (map Close d)) / 50
                            then ''Bullish'' else ''Bearish'')))"
proof -
  let ?c = "map Close d"
  from assms(2) have c: "?c \<noteq> []" by simp
  have s50: "series_last PositionalFallback (rolling_mean 50 ?c) = Inr (last (rolling_mean 50 ?c))"
    by (rule series_last_positional [OF rolling_mean_nonempty [OF c]])
  have s200: "series_last PositionalFallback (rolling_mean 200 ?c) = Inr (last (rolling_mean 200 ?c))"
    by (rule series_last_positional [OF rolling_mean_nonempty [OF c]])
  have srsi: "series_last PositionalFallback (calculate_rsi nz ?c 14) =
      Inr (last (calculate_rsi nz ?c 14))"
    by (rule series_last_positional [OF calculate_rsi_nonempty [OF c]])
  have sc: "series_last PositionalFallback ?c = Inr (last ?c)"
    by (rule series_last_positional [OF c])
  have l50: "last (rolling_mean 50 ?c) =
      (if 50 \<le> length d then Fin (sum_list (tail 50 ?c) / 50) else NaN)"
    using rolling_mean_last [OF c, of 50] by simp
  have l200: "last (rolling_mean 200 ?c) =
      (if 200 \<le> length d then Fin (sum_list (tail 200 ?c) / 200) else NaN)"
    using rolling_mean_last [OF c, of 200] by simp
  show ?thesis
    using assms(1)
    by (simp add: analyze_technicals_def Let_def raising_def sc s50 s200 srsi l50 l200)
qed

lemma trend_signal_positional_examples:
  "(\<exists>signals a'. analyze_technicals PositionalFallback False (with_closes long_closes) =
        Inr (signals, a') \<and>
      map_of signals ''trend'' = Some (PStr ''Bullish'')) \<and>
   (\<exists>signals a'. analyze_technicals PositionalFallback False (with_closes [1, 2, 3]) =
        Inr (signals, a') \<and>
      map_of signals ''trend'' = Some (PStr ''Bearish''))"
proof -
  let ?bars = "map (\<lambda>c. \<lparr>High = c, Low = c, Close = c\<rparr>)"
  have long: "\<exists>signals a'. analyze_technicals PositionalFallback False (with_closes long_closes) =
        Inr (signals, a') \<and>
      map_of signals ''trend'' = Some (PStr ''Bullish'')"
    using trend_signal_positional [of "with_closes long_closes" "?bars long_closes" False]
    by (simp add: with_closes_def long_closes_def tail_def sum_list_replicate comp_def)
  have short: "\<exists>signals a'. analyze_technicals PositionalFallback False (with_closes [1, 2, 3]) =
        Inr (signals, a') \<and>
      map_of signals ''trend'' = Some (PStr ''Bearish'')"
    using trend_signal_positional [of "with_closes [1, 2, 3]" "?bars [1, 2, 3]" False]
    by (simp add: with_closes_def)
  from long short show ?thesis by simp
qed

text \<open>
  Where an integer key is a label (pandas from 3 on), \<open>close_prices[-1]\<close> raises KeyError
  on every price frame, whatever its length, so no trend signal is ever produced.
\<close>

lemma analyze_technicals_label_lookup:
  assumes "data a = Some d"
  shows "analyze_technicals LabelLookup nz a = Inl KeyError"
  using assms by (simp add: analyze_technicals_def Let_def raising_def series_last_def)

text \<open>
  Claim C6 says that evaluating the trend signal does not raise for a price series of
  fewer than 200 entries. The code breaks this: it reads the latest values with \<open>s[-1]\<close>
  where Technical\_Analysis.py reads them with \<open>s.iloc[-1]\<close>. On the three-entry series
  \<open>[1, 2, 3]\<close>, with an integer key taken as a label, \<open>analyze_technicals\<close> raises
  KeyError; on the empty series, with the positional fallback, it raises IndexError.
\<close>

theorem trend_raises_on_short_series:
  "data (with_closes [1, 2, 3]) =
     Some [\<lparr>High = 1, Low = 1, Close = 1\<rparr>, \<lparr>High = 2, Low = 2, Close = 2\<rparr>,
           \<lparr>High = 3, Low = 3, Close = 3\<rparr>] \<and>
   length [1, 2, 3 :: rat] < 200 \<and>
   analyze_technicals LabelLookup False (with_closes [1, 2, 3]) = Inl KeyError \<and>
   data (with_closes []) = Some [] \<and> length ([] :: bar list) < 200 \<and>
   analyze_technicals PositionalFallback False (with_closes []) = Inl IndexError \<and>
   analyze_technicals LabelLookup False (with_closes []) = Inl KeyError"
  by (simp add: with_closes_def analyze_technicals_def series_last_def raising_def)

subsection \<open>Sentiment classification\<close>

text \<open>
  Claim C8. For every polarity score \<open>s\<close> the label is Bullish when \<open>s \<ge> 0.05\<close>, Bearish
  when \<open>s \<le> -0.05\<close> and Neutral otherwise, and the \<open>classify_sentiment\<close> functions of the
  two sentiment pages (each used for the per-article scores and for their mean) give the
  same label for every score.
\<close>

theorem classify_sentiment_thresholds:
  "(s \<ge> 5 / 100 \<longrightarrow> fst (Sentimental_classify_sentiment s) = label_bullish) \<and>
   (s \<le> - (5 / 100) \<longrightarrow> fst (Sentimental_classify_sentiment s) = label_bearish) \<and>
   (- (5 / 100) < s \<and> s < 5 / 100 \<longrightarrow> fst (Sentimental_classify_sentiment s) = label_neutral) \<and>
   fst (Sector_Sentiment_classify_sentiment s) = fst (Sentimental_classify_sentiment s) \<and>
   fst (snd (Sentimental_classify_sentiment s)) = snd (Sector_Sentiment_classify_sentiment s)"
  by (simp add: Sentimental_classify_sentiment_def Sector_Sentiment_classify_sentiment_def)

theorem classify_sentiment_thresholds_witness:
  "(5 / 100 :: rat) \<ge> 5 / 100 \<and> fst (Sentimental_classify_sentiment (5 / 100)) = label_bullish \<and>
   fst (Sector_Sentiment_classify_sentiment (5 / 100)) = label_bullish \<and>
   (- (5 / 100) :: rat) \<le> - (5 / 100) \<and>
   fst (Sentimental_classify_sentiment (- (5 / 100))) = label_bearish \<and>
   fst (Sector_Sentiment_classify_sentiment (- (5 / 100))) = label_bearish \<and>
   - (5 / 100) < (0::rat) \<and> (0::rat) < 5 / 100 \<and>
   fst (Sentimental_classify_sentiment 0) = label_neutral \<and>
   fst (Sector_Sentiment_classify_sentiment 0) = label_neutral \<and>
   label_bullish \<noteq> label_bearish \<and> label_bullish \<noteq> label_neutral \<and>
   label_bearish \<noteq> label_neutral"
  using classify_sentiment_thresholds [of "5 / 100"] classify_sentiment_thresholds [of "- (5 / 100)"]
    classify_sentiment_thresholds [of 0]
  by (simp add: label_bullish_def label_bearish_def label_neutral_def)

subsection \<open>Ticker validation\<close>

lemma split_on_nonempty: "split_on c s \<noteq> []"
  by (induction s) (auto split: list.splits)

text \<open>
  Claim C7, as amended. For a symbol whose stripped, upper-cased form contains a dot and
  has a suffix outside the allow-list \<open>{.NS, .BO, .L, .PA, .DE, .HK}\<close>, \<open>validate_ticker\<close>
  rejects the symbol when that form is longer than 6 characters; when it has at most 6
  characters and its base part is alphanumeric-with-hyphen, the symbol is accepted.
\<close>

theorem validate_ticker_unlisted_suffix:
  assumes "CHR ''.'' \<in> set (normalised symbol)"
    and "suffix_of (normalised symbol) \<notin> set valid_suffixes"
  shows "(length (normalised symbol) > 6 \<longrightarrow> \<not> validate_ticker symbol) \<and>
         (length (normalised symbol) \<le> 6 \<and>
          isalnum (replace_hyphens (base_symbol_of (normalised symbol))) \<longrightarrow>
            validate_ticker symbol)"
proof -
  from assms(1) have "symbol \<noteq> []"
    by (auto simp: normalised_def upper_def strip_def)
  with assms show ?thesis
    by (auto simp: validate_ticker_def Let_def)
qed

lemma normalised_examples:
  "normalised ''reliance.xx'' = ''RELIANCE.XX''" "normalised '' brk.b '' = ''BRK.B''"
  by code_simp+

theorem validate_ticker_unlisted_suffix_witness:
  "CHR ''.'' \<in> set (normalised ''reliance.xx'') \<and>
   suffix_of (normalised ''reliance.xx'') \<notin> set valid_suffixes \<and>
   length (normalised ''reliance.xx'') > 6 \<and> \<not> validate_ticker ''reliance.xx'' \<and>
   CHR ''.'' \<in> set (normalised '' brk.b '') \<and>
   suffix_of (normalised '' brk.b '') \<notin> set valid_suffixes \<and>
   length (normalised '' brk.b '') \<le> 6 \<and>
   isalnum (replace_hyphens (base_symbol_of (normalised '' brk.b ''))) \<and>
   validate_ticker '' brk.b ''"
  using validate_ticker_unlisted_suffix [of "''reliance.xx''"]
    validate_ticker_unlisted_suffix [of "'' brk.b ''"]
  by (simp add: normalised_examples suffix_of_def valid_suffixes_def base_symbol_of_def
       replace_hyphens_def isalnum_def isalnum_chr_def)

text \<open>
  Claim C7 as stated ("regardless of the symbol's overall length") fails: \<open>AB.XY\<close> contains
  a dot, its suffix \<open>.XY\<close> is not in the allow-list, and it is accepted.
\<close>

theorem validate_ticker_short_suffix_counterexample:
  "CHR ''.'' \<in> set ''AB.XY'' \<and> suffix_of ''AB.XY'' = ''.XY'' \<and>
   ''.XY'' \<notin> set valid_suffixes \<and> validate_ticker ''AB.XY''"
  by (simp add: validate_ticker_def normalised_def upper_def strip_def upper_chr_def
       isspace_chr_def suffix_of_def valid_suffixes_def base_symbol_of_def replace_hyphens_def
       isalnum_def isalnum_chr_def)

subsection \<open>Fetching\<close>

lemma fetch_valid_symbol_calls_provider:
  "fetch_stock_data always_data ''AAPL'' 0 1 =
     ((Some [\<lparr>High = 2, Low = 1, Close = 2\<rparr>], Some [(''forwardPE'', PNum (Fin 15))]),
      [HistoryPeriod1d ''AAPL'', HistoryRange ''AAPL'' 0 1, InfoRequest ''AAPL''])"
  by (simp add: fetch_stock_data_def always_data_def validate_ticker_def normalised_def upper_def
       strip_def upper_chr_def isspace_chr_def base_symbol_of_def replace_hyphens_def
       isalnum_def isalnum_chr_def)

text \<open>
  Claim C4. For every symbol that \<open>validate_ticker\<close> rejects, \<open>fetch_stock_data\<close> returns
  \<open>(None, None)\<close> and sends no request to the provider, whatever the provider would answer.
\<close>

theorem fetch_invalid_symbol_no_request:
  assumes "\<not> validate_ticker symbol"
  shows "fetch_stock_data provider symbol start_date end_date = ((None, None), [])"
  using assms by (simp add: fetch_stock_data_def)

theorem fetch_invalid_symbol_no_request_witness:
  "\<not> validate_ticker ''GOOGLE.XYZ'' \<and> \<not> validate_ticker '''' \<and> \<not> validate_ticker ''AB$'' \<and>
   \<not> validate_ticker ''TOOLONG'' \<and>
   fetch_stock_data always_data ''GOOGLE.XYZ'' 0 1 = ((None, None), [])"
  using fetch_invalid_symbol_no_request [of "''GOOGLE.XYZ''" always_data 0 1]
  by (simp add: validate_ticker_def normalised_def upper_def strip_def upper_chr_def
       isspace_chr_def suffix_of_def valid_suffixes_def base_symbol_of_def replace_hyphens_def
       isalnum_def isalnum_chr_def)

subsection \<open>The forecast loop\<close>

lemma forecast_loop_length:
  assumes "1 \<le> lookback" and "length current_seq = lookback"
  shows "\<exists>fp. forecast_loop predict lookback n current_seq future_pred = Inr fp \<and>
              length fp = length future_pred + n"
  using assms
proof (induction n arbitrary: current_seq future_pred)
  case 0
  then show ?case by simp
next
  case (Suc n)
  let ?pred = "predict current_seq"
  from Suc.prems have "length (tl current_seq @ [?pred]) = lookback"
    by simp
  from Suc.IH [OF Suc.prems(1) this, of "future_pred @ [?pred]"] Suc.prems
  show ?case by (simp add: Let_def)
qed

lemma last_rows_length:
  assumes "1 \<le> lookback" and "lookback \<le> length scaled_data"
  shows "length (last_rows lookback scaled_data) = lookback"
  using assms by (simp add: last_rows_def)

text \<open>
  Claim C9. Started on a lookback window of the scaled data (a lookback of at least 1 and
  no longer than the data), the open-loop forecast loop returns, and it has produced
  exactly \<open>prediction_periods\<close> values, for every horizon; for every horizon the slider can
  request (at least 1), the sequence returned after the inverse scaling has that length too.
\<close>

theorem forecast_length:
  assumes "1 \<le> lookback" and "lookback \<le> length scaled_data"
  shows "(\<exists>fp. forecast_loop predict lookback horizon (last_rows lookback scaled_data) [] = Inr fp \<and>
               length fp = horizon) \<and>
         (1 \<le> horizon \<longrightarrow>
            (\<exists>out. forecast predict sc scaled_data lookback horizon = Inr out \<and>
                   length out = horizon))"
proof -
  from forecast_loop_length [OF assms(1) last_rows_length [OF assms], of predict horizon "[]"]
  obtain fp where fp: "forecast_loop predict lookback horizon (last_rows lookback scaled_data) [] = Inr fp"
    and len: "length fp = horizon"
    by auto
  have "1 \<le> horizon \<longrightarrow>
          (\<exists>out. forecast predict sc scaled_data lookback horizon = Inr out \<and> length out = horizon)"
  proof
    assume "1 \<le> horizon"
    with len have "fp \<noteq> []" by auto
    with fp len show "\<exists>out. forecast predict sc scaled_data lookback horizon = Inr out \<and>
        length out = horizon"
      by (simp add: forecast_def raising_def inverse_transform_def)
  qed
  with fp len show ?thesis by simp
qed

theorem forecast_length_witness:
  "(1::nat) \<le> 2 \<and> 2 \<le> length [0, 1 / 2, 1, 1 / 2 :: rat] \<and> (1::nat) \<le> 3 \<and>
   forecast_loop window_mean 2 3 (last_rows 2 [0, 1 / 2, 1, 1 / 2]) [] = Inr [3 / 4, 5 / 8, 11 / 16] \<and>
   forecast window_mean \<lparr>data_offset = 0, data_scale = 1 / 10\<rparr> [0, 1 / 2, 1, 1 / 2] 2 3 =
     Inr [15 / 2, 25 / 4, 55 / 8] \<and>
   length [15 / 2, 25 / 4, 55 / 8 :: rat] = 3"
  using forecast_length [of 2 "[0, 1 / 2, 1, 1 / 2]" window_mean 3
      "\<lparr>data_offset = 0, data_scale = 1 / 10\<rparr>"]
  by (simp add: forecast_def raising_def inverse_transform_def last_rows_def window_mean_def
       numeral_3_eq_3)

end
